theory Spec2Isabelle
  imports Complex_Main "HOL-Library.Word"
begin

section \<open>Type descriptors\<close>

text \<open>
  The node factory of \<^verbatim>\<open>IntermNode_util.cpp\<close> consumes the compiler's type descriptor
  \<^verbatim>\<open>TType\<close>, whose class is declared outside the file. The enumerations list the
  enumerators the file names, some further ones, and one constructor standing for the
  remaining enumerators by ordinal.
\<close>

datatype TBasicType =
    EbtVoid | EbtFloat | EbtInt | EbtUInt | EbtBool
  | EbtSampler2D | EbtSamplerCube | EbtStruct | EbtInterfaceBlock
  | EbtOther nat

datatype TPrecision = EbpUndefined | EbpLow | EbpMedium | EbpHigh

datatype TQualifier =
    EvqTemporary | EvqGlobal | EvqConst | EvqAttribute | EvqVaryingIn | EvqVaryingOut
  | EvqUniform | EvqIn | EvqOut | EvqInOut
  | EvqOther nat

text \<open>
  Modelled from the spec: the Type Descriptor (class \<^verbatim>\<open>TType\<close>, not in the file) is a
  value with a basic kind, a precision, a qualifier, the two sizes whose product is the
  component count of a scalar, vector or matrix, the array dimensions (listed from the
  outermost inwards) and, for the struct kind, the ordered field list, each field having
  a Type Descriptor of its own. A descriptor that is not of struct kind carries the empty
  structure \<open>noStructure\<close>.
\<close>

datatype TType =
  TType (getBasicType: TBasicType) (getPrecision: TPrecision) (getQualifier: TQualifier)
        (getNominalSize: nat) (getSecondarySize: nat) (arraySizes: "nat list")
        (getStruct: TStructure)
and TStructure = TStructure (structName: string) (fieldList: "TField list")
and TField = TField (fieldType: TType) (fieldName: string)

definition noStructure :: TStructure where
  "noStructure = TStructure [] []"

text \<open>
  Modelled from the spec: the constructor \<^verbatim>\<open>TType(basicType, precision, qualifier, primarySize)\<close>
  of a non-array, non-struct type; the secondary size defaults to 1.
\<close>

definition TType_basic :: "TBasicType \<Rightarrow> TPrecision \<Rightarrow> TQualifier \<Rightarrow> nat \<Rightarrow> TType" where
  "TType_basic t p q ps = TType t p q ps 1 [] noStructure"

text \<open>Modelled from the spec: the accessors and mutators of \<^verbatim>\<open>TType\<close> the file calls.
  A mutator acts on a copy, which is how the file uses it (clone, then modify). The file
  calls \<^verbatim>\<open>toArrayElementType\<close> and \<^verbatim>\<open>getOutermostArraySize\<close> on array types only (under
  \<^verbatim>\<open>isArray()\<close> at lines 94 and 103); on a type without dimensions the first changes
  nothing here and the second is left unspecified.\<close>

definition isArray :: "TType \<Rightarrow> bool" where
  "isArray t = (arraySizes t \<noteq> [])"

definition setQualifier :: "TQualifier \<Rightarrow> TType \<Rightarrow> TType" where
  "setQualifier q t =
     TType (getBasicType t) (getPrecision t) q (getNominalSize t) (getSecondarySize t)
           (arraySizes t) (getStruct t)"

definition toArrayElementType :: "TType \<Rightarrow> TType" where
  "toArrayElementType t =
     TType (getBasicType t) (getPrecision t) (getQualifier t) (getNominalSize t)
           (getSecondarySize t) (tl (arraySizes t)) (getStruct t)"

definition getOutermostArraySize :: "TType \<Rightarrow> nat" where
  "getOutermostArraySize t = hd (arraySizes t)"

lemma field_size: "f \<in> set fs \<Longrightarrow> size (fieldType f) < Suc (Suc (size_list size fs))"
proof -
  assume "f \<in> set fs"
  then have "size f \<le> size_list size fs"
    by (rule size_list_estimation') simp
  moreover have "size (fieldType f) < size f"
    by (cases f) simp
  ultimately show ?thesis by simp
qed

text \<open>Modelled from the spec: the flattened scalar-component count of a type
  (\<^verbatim>\<open>TType::getObjectSize\<close>).\<close>

function getObjectSize :: "TType \<Rightarrow> nat" where
  "getObjectSize t =
     (let totalSize =
            (if getBasicType t = EbtStruct
             then sum_list (map (\<lambda>field. getObjectSize (fieldType field)) (fieldList (getStruct t)))
             else getNominalSize t * getSecondarySize t)
      in foldl (\<lambda>total arraySize. total * arraySize) totalSize (arraySizes t))"
  by pat_completeness auto
termination
proof (relation "measure size", goal_cases)
  case 1
  show ?case by simp
next
  case (2 t field)
  then show ?case
    by (cases t; cases "getStruct t") (auto simp: field_size)
qed

declare getObjectSize.simps [simp del]

text \<open>The weight of a descriptor: one, plus its number of array dimensions, plus the
  weights of the types of its fields.\<close>

function typeWeight :: "TType \<Rightarrow> nat" where
  "typeWeight t =
     Suc (length (arraySizes t)
          + sum_list (map (\<lambda>field. typeWeight (fieldType field)) (fieldList (getStruct t))))"
  by pat_completeness auto
termination
proof (relation "measure size", goal_cases)
  case 1
  show ?case by simp
next
  case (2 t field)
  then show ?case
    by (cases t; cases "getStruct t") (auto simp: field_size)
qed

declare typeWeight.simps [simp del]

text \<open>The loop of lines 94-97, \<^verbatim>\<open>while (constType.isArray()) constType.toArrayElementType();\<close>\<close>

function stripArrayDimensions :: "TType \<Rightarrow> TType" where
  "stripArrayDimensions t =
     (if isArray t then stripArrayDimensions (toArrayElementType t) else t)"
  by pat_completeness auto
termination
  by (relation "measure (\<lambda>t. length (arraySizes t))") (auto simp: isArray_def toArrayElementType_def)

declare stripArrayDimensions.simps [simp del]

section \<open>Symbols\<close>

datatype SymbolType = BuiltIn | UserDefined | AngleInternal | Empty

datatype TOperator =
    EOpNull | EOpCallBuiltInFunction | EOpInitialize | EOpAssign
  | EOpNegative | EOpSin | EOpCos | EOpAbs | EOpMin | EOpMax
  | EOpOther nat

text \<open>Modelled from the spec: a Variable Symbol has an identity, a name (empty for a
  temporary), a Type Descriptor and a symbol-kind tag; a Function Symbol has a name, a
  return type and a primitive-operator tag.\<close>

record TVariable =
  uniqueId :: nat
  symbolName :: string
  variableType :: TType
  symbolType :: SymbolType

record TFunction =
  functionName :: string
  getReturnType :: TType
  getBuiltInOp :: TOperator

datatype TSymbol = VariableSymbol TVariable | FunctionSymbol TFunction | StructureSymbol TStructure

text \<open>Modelled from the spec: the Symbol Table resolves globals by name and builtins by
  mangled name and language version, and owns the arena of new symbols; the identity
  of the next symbol it creates is its counter.\<close>

record TSymbolTable =
  nextUniqueId :: nat
  findGlobal :: "string \<Rightarrow> TSymbol option"
  findBuiltIn :: "string \<Rightarrow> int \<Rightarrow> TSymbol option"

text \<open>Modelled from the spec: \<^verbatim>\<open>new TVariable(symbolTable, name, type, symbolType)\<close> allocates
  a new Variable Symbol in the symbol table's arena.\<close>

definition new_TVariable ::
  "TSymbolTable \<Rightarrow> string \<Rightarrow> TType \<Rightarrow> SymbolType \<Rightarrow> TVariable \<times> TSymbolTable" where
  "new_TVariable st n t k =
     (\<lparr>uniqueId = nextUniqueId st, symbolName = n, variableType = t, symbolType = k\<rparr>,
      st\<lparr>nextUniqueId := nextUniqueId st + 1\<rparr>)"

section \<open>Nodes of the intermediate tree\<close>

record TSourceLoc =
  first_file :: int
  first_line :: int
  last_file :: int
  last_line :: int

datatype TConstantUnion = FConst real | IConst "32 word" | UConst "32 word" | BConst bool

datatype AggregateCall = Constructor TType | BuiltInFunctionCall TFunction

text \<open>Modelled from the spec: the IR Node variants. Every node has a source location;
  the integer of \<open>IConst\<close> is the 32-bit \<^verbatim>\<open>int\<close> (read with \<open>sint\<close>), that of \<open>UConst\<close>
  the 32-bit \<^verbatim>\<open>unsigned int\<close>. The operand of a unary operation is a pointer the file
  takes from \<^verbatim>\<open>getAsTyped()\<close>, which may be null.\<close>

datatype TIntermNode = TIntermNode (getLine: TSourceLoc) (nodeKind: TIntermKind)
and TIntermKind =
    TIntermFunctionPrototype TFunction
  | TIntermFunctionDefinition TIntermNode TIntermNode
  | TIntermBlock "TIntermNode list"
  | TIntermDeclaration "TIntermNode list"
  | TIntermBinary TOperator TIntermNode TIntermNode
  | TIntermUnary TOperator "TIntermNode option" TFunction
  | TIntermSymbol TVariable
  | TIntermConstantUnion "TConstantUnion list" TType
  | TIntermAggregate AggregateCall "TIntermNode list"

text \<open>A node constructor called without a location leaves the default one.\<close>

definition defaultLine :: TSourceLoc where
  "defaultLine = \<lparr>first_file = 0, first_line = 0, last_file = 0, last_line = 0\<rparr>"

definition newNode :: "TIntermKind \<Rightarrow> TIntermNode" where
  "newNode k = TIntermNode defaultLine k"

definition setLine :: "TSourceLoc \<Rightarrow> TIntermNode \<Rightarrow> TIntermNode" where
  "setLine l n = TIntermNode l (nodeKind n)"

text \<open>Modelled from the spec: the downcasts. A block is the Block variant; the typed
  nodes are the expression variants.\<close>

definition getAsBlock :: "TIntermNode \<Rightarrow> TIntermNode option" where
  "getAsBlock n = (case nodeKind n of TIntermBlock ss \<Rightarrow> Some n | _ \<Rightarrow> None)"

definition getAsTyped :: "TIntermNode \<Rightarrow> TIntermNode option" where
  "getAsTyped n =
     (case nodeKind n of
        TIntermBinary op l r \<Rightarrow> Some n
      | TIntermUnary op x f \<Rightarrow> Some n
      | TIntermSymbol v \<Rightarrow> Some n
      | TIntermConstantUnion u t \<Rightarrow> Some n
      | TIntermAggregate c args \<Rightarrow> Some n
      | _ \<Rightarrow> None)"

text \<open>Modelled from the spec: the type of a typed node. A constant and a constructor call
  hold the type they were built with and a reference has the type of its variable; the
  type of an operator or call node is computed by code outside the file, the parameter
  \<open>opType\<close>.\<close>

definition getType :: "(TIntermNode \<Rightarrow> TType) \<Rightarrow> TIntermNode \<Rightarrow> TType" where
  "getType opType n =
     (case nodeKind n of
        TIntermConstantUnion u t \<Rightarrow> t
      | TIntermSymbol v \<Rightarrow> variableType v
      | TIntermAggregate (Constructor t) args \<Rightarrow> t
      | _ \<Rightarrow> opType n)"

text \<open>Modelled from the spec: the factories of aggregate nodes and the methods appending
  to a sequence.\<close>

definition CreateConstructor :: "TType \<Rightarrow> TIntermNode list \<Rightarrow> TIntermNode" where
  "CreateConstructor t arguments = newNode (TIntermAggregate (Constructor t) arguments)"

definition CreateBuiltInFunctionCall :: "TFunction \<Rightarrow> TIntermNode list \<Rightarrow> TIntermNode" where
  "CreateBuiltInFunctionCall func arguments =
     newNode (TIntermAggregate (BuiltInFunctionCall func) arguments)"

definition appendDeclarator :: "TIntermNode \<Rightarrow> TIntermNode \<Rightarrow> TIntermNode" where
  "appendDeclarator declaration declarator =
     (case nodeKind declaration of
        TIntermDeclaration ds \<Rightarrow> TIntermNode (getLine declaration) (TIntermDeclaration (ds @ [declarator]))
      | _ \<Rightarrow> declaration)"

definition appendStatement :: "TIntermNode \<Rightarrow> TIntermNode \<Rightarrow> TIntermNode" where
  "appendStatement block statement =
     (case nodeKind block of
        TIntermBlock ss \<Rightarrow> TIntermNode (getLine block) (TIntermBlock (ss @ [statement]))
      | _ \<Rightarrow> block)"

section \<open>The node factory\<close>

text \<open>A failed \<^verbatim>\<open>ASSERT\<close> and the dereference of a null pointer end the program; they are
  the two errors of the model.\<close>

datatype error = AssertionFailure | NullDereference

text \<open>The results of the calls of a loop, in order; the first failure ends the loop.\<close>

fun sequence_results :: "(error + 'a) list \<Rightarrow> error + 'a list" where
  "sequence_results [] = Inr []"
| "sequence_results (Inl e # rs) = Inl e"
| "sequence_results (Inr x # rs) =
     (case sequence_results rs of Inl e \<Rightarrow> Inl e | Inr xs \<Rightarrow> Inr (x # xs))"

lemma size_setQualifier: "size (setQualifier q t) = size t"
  by (cases t) (simp add: setQualifier_def)

lemma size_toArrayElementType: "size (toArrayElementType t) = size t"
  by (cases t) (simp add: toArrayElementType_def)

lemma arraySizes_toArrayElementType: "arraySizes (toArrayElementType t) = tl (arraySizes t)"
  by (simp add: toArrayElementType_def)

lemma size_stripArrayDimensions: "size (stripArrayDimensions t) = size t"
  by (induction t rule: stripArrayDimensions.induct)
     (subst stripArrayDimensions.simps, simp add: size_toArrayElementType)

lemma arraySizes_stripArrayDimensions: "arraySizes (stripArrayDimensions t) = []"
  by (induction t rule: stripArrayDimensions.induct)
     (subst stripArrayDimensions.simps, simp add: isArray_def)

text \<open>\<^verbatim>\<open>CreateZeroNode\<close>, lines 48-126.\<close>

function CreateZeroNode :: "TType \<Rightarrow> error + TIntermNode" where
  "CreateZeroNode t =
     (let constType = setQualifier EvqConst t in
      if \<not> isArray t \<and> getBasicType t \<noteq> EbtStruct then
        (let size = getObjectSize constType;
             u = map (\<lambda>i. case getBasicType t of
                             EbtFloat \<Rightarrow> FConst 0
                           | EbtInt \<Rightarrow> IConst 0
                           | EbtUInt \<Rightarrow> UConst 0
                           | EbtBool \<Rightarrow> BConst False
                           | _ \<Rightarrow> IConst 42) [0..<size]
         in Inr (newNode (TIntermConstantUnion u constType)))
      else if getBasicType t = EbtVoid then
        CreateZeroNode (stripArrayDimensions constType)
      else if isArray t then
        (let elementType = toArrayElementType t;
             arraySize = getOutermostArraySize t
         in case sequence_results (map (\<lambda>i. CreateZeroNode elementType) [0..<arraySize]) of
              Inl e \<Rightarrow> Inl e
            | Inr arguments \<Rightarrow> Inr (CreateConstructor constType arguments))
      else if getBasicType t \<noteq> EbtStruct then Inl AssertionFailure
      else
        (let struct = getStruct t
         in case sequence_results (map (\<lambda>field. CreateZeroNode (fieldType field)) (fieldList struct)) of
              Inl e \<Rightarrow> Inl e
            | Inr arguments \<Rightarrow> Inr (CreateConstructor constType arguments)))"
  by pat_completeness auto
termination
proof (relation "measures [size, \<lambda>t. length (arraySizes t)]", goal_cases)
  case 1
  show ?case by simp
next
  case (2 t constType)
  then show ?case
    by (auto simp: size_stripArrayDimensions arraySizes_stripArrayDimensions size_setQualifier
                   isArray_def)
next
  case (3 t constType elementType arraySize i)
  then show ?case
    by (simp add: size_toArrayElementType arraySizes_toArrayElementType isArray_def)
next
  case (4 t constType struct field)
  then show ?case
    by (cases t; cases "getStruct t") (auto simp: field_size)
qed

declare CreateZeroNode.simps [simp del]

text \<open>The argument types of the recursive calls \<^verbatim>\<open>CreateZeroNode\<close> makes on \<open>t\<close>, in the
  order of the calls: line 98 for a void array, line 111 once per element of the outermost
  dimension, line 121 once per field.\<close>

definition CreateZeroNode_calls :: "TType \<Rightarrow> TType list" where
  "CreateZeroNode_calls t =
     (if \<not> isArray t \<and> getBasicType t \<noteq> EbtStruct then []
      else if getBasicType t = EbtVoid then [stripArrayDimensions (setQualifier EvqConst t)]
      else if isArray t then replicate (getOutermostArraySize t) (toArrayElementType t)
      else map fieldType (fieldList (getStruct t)))"

text \<open>\<^verbatim>\<open>CreateIndexNode\<close> and \<^verbatim>\<open>CreateBoolNode\<close>, lines 128-146.\<close>

definition CreateIndexNode :: "32 word \<Rightarrow> TIntermNode" where
  "CreateIndexNode index =
     (let u = [IConst index];
          t = TType_basic EbtInt EbpUndefined EvqConst 1
      in newNode (TIntermConstantUnion u t))"

definition CreateBoolNode :: "bool \<Rightarrow> TIntermNode" where
  "CreateBoolNode v =
     (let u = [BConst v];
          t = TType_basic EbtBool EbpUndefined EvqConst 1
      in newNode (TIntermConstantUnion u t))"

text \<open>\<^verbatim>\<open>CreateTempVariable\<close>, lines 148-166: the overload without and the overload with a
  qualifier. The symbol table is a pointer, null being \<open>None\<close>; the table is returned with
  the new variable allocated in it.\<close>

definition CreateTempVariable ::
  "TSymbolTable option \<Rightarrow> TType \<Rightarrow> error + (TVariable \<times> TSymbolTable)" where
  "CreateTempVariable symbolTable t =
     (case symbolTable of
        None \<Rightarrow> Inl AssertionFailure
      | Some st \<Rightarrow> Inr (new_TVariable st [] t AngleInternal))"

definition CreateTempVariable_qualifier ::
  "TSymbolTable option \<Rightarrow> TType \<Rightarrow> TQualifier \<Rightarrow> error + (TVariable \<times> TSymbolTable)" where
  "CreateTempVariable_qualifier symbolTable t qualifier =
     (case symbolTable of
        None \<Rightarrow> Inl AssertionFailure
      | Some st \<Rightarrow>
          if getQualifier t = qualifier then CreateTempVariable symbolTable t
          else (let typeWithQualifier = setQualifier qualifier t
                in CreateTempVariable symbolTable typeWithQualifier))"

text \<open>\<^verbatim>\<open>CreateTempSymbolNode\<close>, lines 168-175.\<close>

definition CreateTempSymbolNode :: "TVariable \<Rightarrow> error + TIntermNode" where
  "CreateTempSymbolNode tempVariable =
     (if symbolType tempVariable \<noteq> AngleInternal then Inl AssertionFailure
      else if \<not> (getQualifier (variableType tempVariable) = EvqTemporary \<or>
                  getQualifier (variableType tempVariable) = EvqConst \<or>
                  getQualifier (variableType tempVariable) = EvqGlobal)
      then Inl AssertionFailure
      else Inr (newNode (TIntermSymbol tempVariable)))"

text \<open>\<^verbatim>\<open>CreateTempDeclarationNode\<close>, \<^verbatim>\<open>CreateTempInitDeclarationNode\<close> and
  \<^verbatim>\<open>CreateTempAssignmentNode\<close>, lines 177-200. The initializer and the right-hand side
  are pointers, null being \<open>None\<close>.\<close>

definition CreateTempDeclarationNode :: "TVariable \<Rightarrow> error + TIntermNode" where
  "CreateTempDeclarationNode tempVariable =
     (let tempDeclaration = newNode (TIntermDeclaration [])
      in case CreateTempSymbolNode tempVariable of
           Inl e \<Rightarrow> Inl e
         | Inr tempSymbol \<Rightarrow> Inr (appendDeclarator tempDeclaration tempSymbol))"

definition CreateTempInitDeclarationNode ::
  "TVariable \<Rightarrow> TIntermNode option \<Rightarrow> error + TIntermNode" where
  "CreateTempInitDeclarationNode tempVariable initializer =
     (case initializer of
        None \<Rightarrow> Inl AssertionFailure
      | Some init \<Rightarrow>
          (case CreateTempSymbolNode tempVariable of
             Inl e \<Rightarrow> Inl e
           | Inr tempSymbol \<Rightarrow>
               (let tempDeclaration = newNode (TIntermDeclaration []);
                    tempInit = newNode (TIntermBinary EOpInitialize tempSymbol init)
                in Inr (appendDeclarator tempDeclaration tempInit))))"

definition CreateTempAssignmentNode ::
  "TVariable \<Rightarrow> TIntermNode option \<Rightarrow> error + TIntermNode" where
  "CreateTempAssignmentNode tempVariable rightNode =
     (case rightNode of
        None \<Rightarrow> Inl AssertionFailure
      | Some r \<Rightarrow>
          (case CreateTempSymbolNode tempVariable of
             Inl e \<Rightarrow> Inl e
           | Inr tempSymbol \<Rightarrow> Inr (newNode (TIntermBinary EOpAssign tempSymbol r))))"

text \<open>\<^verbatim>\<open>DeclareTempVariable\<close>, lines 202-221: the overload taking a type and the overload
  taking an initializer. The variable is the returned value, the declaration is what the
  source stores through \<^verbatim>\<open>declarationOut\<close>.\<close>

definition DeclareTempVariable ::
  "TSymbolTable option \<Rightarrow> TType \<Rightarrow> TQualifier \<Rightarrow>
   error + (TVariable \<times> TIntermNode \<times> TSymbolTable)" where
  "DeclareTempVariable symbolTable t qualifier =
     (case CreateTempVariable_qualifier symbolTable t qualifier of
        Inl e \<Rightarrow> Inl e
      | Inr (variable, st) \<Rightarrow>
          (case CreateTempDeclarationNode variable of
             Inl e \<Rightarrow> Inl e
           | Inr declaration \<Rightarrow> Inr (variable, declaration, st)))"

definition DeclareTempVariable_initializer ::
  "(TIntermNode \<Rightarrow> TType) \<Rightarrow> TSymbolTable option \<Rightarrow> TIntermNode option \<Rightarrow> TQualifier \<Rightarrow>
   error + (TVariable \<times> TIntermNode \<times> TSymbolTable)" where
  "DeclareTempVariable_initializer opType symbolTable initializer qualifier =
     (case initializer of
        None \<Rightarrow> Inl NullDereference
      | Some init \<Rightarrow>
          (case CreateTempVariable_qualifier symbolTable (getType opType init) qualifier of
             Inl e \<Rightarrow> Inl e
           | Inr (variable, st) \<Rightarrow>
               (case CreateTempInitDeclarationNode variable initializer of
                  Inl e \<Rightarrow> Inl e
                | Inr declaration \<Rightarrow> Inr (variable, declaration, st))))"

text \<open>\<^verbatim>\<open>EnsureBlock\<close>, lines 223-235.\<close>

definition EnsureBlock :: "TIntermNode option \<Rightarrow> TIntermNode option" where
  "EnsureBlock node =
     (case node of
        None \<Rightarrow> None
      | Some n \<Rightarrow>
          (case getAsBlock n of
             Some blockNode \<Rightarrow> Some blockNode
           | None \<Rightarrow>
               (let blockNode = newNode (TIntermBlock []);
                    blockNode = setLine (getLine n) blockNode;
                    blockNode = appendStatement blockNode n
                in Some blockNode)))"

text \<open>Modelled from the spec: the mangled signature (\<^verbatim>\<open>TFunctionLookup::GetMangledName\<close>) is
  computed from the name and the static types of the arguments in order, by the
  parameter \<open>mangle\<close>. The type of an argument is read through \<^verbatim>\<open>getAsTyped()\<close>, so every
  argument has to be a typed node.\<close>

definition GetMangledName ::
  "(string \<Rightarrow> TType list \<Rightarrow> string) \<Rightarrow> (TIntermNode \<Rightarrow> TType) \<Rightarrow> string \<Rightarrow> TIntermNode list \<Rightarrow>
   error + string" where
  "GetMangledName mangle opType n arguments =
     (if list_all (\<lambda>argument. getAsTyped argument \<noteq> None) arguments
      then Inr (mangle n (map (getType opType) arguments))
      else Inl NullDereference)"

text \<open>\<^verbatim>\<open>LookUpBuiltInFunction\<close>, lines 20-33. The assertion \<^verbatim>\<open>symbol->isFunction()\<close>
  holds of a function symbol, which the cast then returns, and fails on any other symbol.\<close>

definition LookUpBuiltInFunction ::
  "(string \<Rightarrow> TType list \<Rightarrow> string) \<Rightarrow> (TIntermNode \<Rightarrow> TType) \<Rightarrow> string \<Rightarrow> TIntermNode list \<Rightarrow>
   TSymbolTable \<Rightarrow> int \<Rightarrow> error + TFunction option" where
  "LookUpBuiltInFunction mangle opType n arguments symbolTable shaderVersion =
     (case GetMangledName mangle opType n arguments of
        Inl e \<Rightarrow> Inl e
      | Inr mangledName \<Rightarrow>
          (case findBuiltIn symbolTable mangledName shaderVersion of
             Some symbol \<Rightarrow>
               (case symbol of
                  FunctionSymbol f \<Rightarrow> Inr (Some f)
                | _ \<Rightarrow> Inl AssertionFailure)
           | None \<Rightarrow> Inr None))"

text \<open>\<^verbatim>\<open>CreateBuiltInFunctionCallNode\<close>, lines 254-267.\<close>

definition CreateBuiltInFunctionCallNode ::
  "(string \<Rightarrow> TType list \<Rightarrow> string) \<Rightarrow> (TIntermNode \<Rightarrow> TType) \<Rightarrow> string \<Rightarrow> TIntermNode list \<Rightarrow>
   TSymbolTable \<Rightarrow> int \<Rightarrow> error + TIntermNode" where
  "CreateBuiltInFunctionCallNode mangle opType n arguments symbolTable shaderVersion =
     (case LookUpBuiltInFunction mangle opType n arguments symbolTable shaderVersion of
        Inl e \<Rightarrow> Inl e
      | Inr None \<Rightarrow> Inl AssertionFailure
      | Inr (Some fn) \<Rightarrow>
          (let op = getBuiltInOp fn
           in if op \<noteq> EOpCallBuiltInFunction \<and> length arguments = 1
              then Inr (newNode (TIntermUnary op (getAsTyped (arguments ! 0)) fn))
              else Inr (CreateBuiltInFunctionCall fn arguments)))"

section \<open>Zero nodes\<close>

lemma sequence_results_map_Inr: "sequence_results (map Inr xs) = Inr xs"
  by (induction xs) simp_all

lemma sequence_results_replicate_Inr: "sequence_results (replicate k (Inr x)) = Inr (replicate k x)"
  by (induction k) simp_all

lemma map_const_upt: "map (\<lambda>i. c) [0..<k] = replicate k c"
  by (simp add: map_replicate_const)

lemma all_Inr_map:
  "(\<And>x. x \<in> set xs \<Longrightarrow> \<exists>y. f x = Inr y) \<Longrightarrow> \<exists>ys. map f xs = map Inr ys \<and> length ys = length xs"
proof (induction xs)
  case Nil
  then show ?case by simp
next
  case (Cons a xs)
  then obtain ys where ys: "map f xs = map Inr ys" "length ys = length xs"
    by auto
  from Cons.prems obtain y where "f a = Inr y"
    by auto
  with ys have "map f (a # xs) = map Inr (y # ys) \<and> length (y # ys) = length (a # xs)"
    by simp
  then show ?case by blast
qed

lemma CreateZeroNode_returns: "\<exists>n. CreateZeroNode t = Inr n"
proof (induction t rule: CreateZeroNode.induct)
  case (1 t)
  show ?case
  proof (cases "\<not> isArray t \<and> getBasicType t \<noteq> EbtStruct")
    case True
    then show ?thesis
      by (subst CreateZeroNode.simps) (simp add: Let_def)
  next
    case nb: False
    show ?thesis
    proof (cases "getBasicType t = EbtVoid")
      case True
      with nb "1.IH"(1) [OF refl] show ?thesis
        by (subst CreateZeroNode.simps) (simp add: Let_def)
    next
      case nv: False
      show ?thesis
      proof (cases "isArray t")
        case True
        show ?thesis
        proof (cases "getOutermostArraySize t")
          case 0
          with nb nv True show ?thesis
            by (subst CreateZeroNode.simps) (simp add: Let_def)
        next
          case (Suc k)
          then have "0 \<in> set [0..<getOutermostArraySize t]" by auto
          from "1.IH"(2) [OF refl nb nv True refl refl this]
          obtain z where "CreateZeroNode (toArrayElementType t) = Inr z" by blast
          with nb nv True show ?thesis
            by (subst CreateZeroNode.simps)
               (simp add: Let_def map_const_upt sequence_results_replicate_Inr del: replicate_Suc)
        qed
      next
        case na: False
        with nb have st: "getBasicType t = EbtStruct" by simp
        have "\<And>field. field \<in> set (fieldList (getStruct t)) \<Longrightarrow> \<exists>y. CreateZeroNode (fieldType field) = Inr y"
          using "1.IH"(3) [OF refl nb nv na _ refl] st by simp
        from all_Inr_map [of "fieldList (getStruct t)" "\<lambda>field. CreateZeroNode (fieldType field)", OF this]
        obtain ys where "map (\<lambda>field. CreateZeroNode (fieldType field)) (fieldList (getStruct t)) = map Inr ys"
          by blast
        with nb nv na st show ?thesis
          by (subst CreateZeroNode.simps) (simp add: Let_def sequence_results_map_Inr)
      qed
    qed
  qed
qed

lemma getObjectSize_setQualifier: "getObjectSize (setQualifier q t) = getObjectSize t"
  by (subst getObjectSize.simps, subst (2) getObjectSize.simps) (simp add: setQualifier_def)

lemma setQualifier_same: "getQualifier t = q \<Longrightarrow> setQualifier q t = t"
  by (cases t) (simp add: setQualifier_def)

lemma stripArrayDimensions_eq:
  "stripArrayDimensions t =
     TType (getBasicType t) (getPrecision t) (getQualifier t) (getNominalSize t)
           (getSecondarySize t) [] (getStruct t)"
proof (induction t rule: stripArrayDimensions.induct)
  case (1 t)
  show ?case
  proof (cases "isArray t")
    case True
    with 1 show ?thesis
      by (subst stripArrayDimensions.simps) (simp add: toArrayElementType_def)
  next
    case False
    then show ?thesis
      by (subst stripArrayDimensions.simps) (cases t, simp add: isArray_def)
  qed
qed

lemma CreateZeroNode_basic:
  assumes "\<not> isArray t" and "getBasicType t \<noteq> EbtStruct"
  shows "CreateZeroNode t =
           Inr (newNode (TIntermConstantUnion
                  (replicate (getObjectSize t)
                     (case getBasicType t of
                        EbtFloat \<Rightarrow> FConst 0
                      | EbtInt \<Rightarrow> IConst 0
                      | EbtUInt \<Rightarrow> UConst 0
                      | EbtBool \<Rightarrow> BConst False
                      | _ \<Rightarrow> IConst 42))
                  (setQualifier EvqConst t)))"
  using assms
  by (subst CreateZeroNode.simps)
     (simp add: Let_def map_const_upt getObjectSize_setQualifier)

lemma CreateZeroNode_void_array:
  assumes "isArray t" and "getBasicType t = EbtVoid"
  shows "CreateZeroNode t = CreateZeroNode (stripArrayDimensions (setQualifier EvqConst t))"
  using assms by (subst CreateZeroNode.simps) (simp add: Let_def)

lemma CreateZeroNode_array:
  assumes "isArray t" and "getBasicType t \<noteq> EbtVoid"
  shows "\<exists>z. CreateZeroNode (toArrayElementType t) = Inr z \<and>
             CreateZeroNode t =
               Inr (CreateConstructor (setQualifier EvqConst t)
                      (replicate (getOutermostArraySize t) z))"
proof -
  obtain z where z: "CreateZeroNode (toArrayElementType t) = Inr z"
    using CreateZeroNode_returns by blast
  with assms have "CreateZeroNode t =
      Inr (CreateConstructor (setQualifier EvqConst t) (replicate (getOutermostArraySize t) z))"
    by (subst CreateZeroNode.simps)
       (simp add: Let_def map_const_upt sequence_results_replicate_Inr)
  with z show ?thesis by blast
qed

lemma CreateZeroNode_struct:
  assumes "\<not> isArray t" and "getBasicType t = EbtStruct"
  shows "\<exists>arguments.
           map (\<lambda>field. CreateZeroNode (fieldType field)) (fieldList (getStruct t)) = map Inr arguments \<and>
           CreateZeroNode t = Inr (CreateConstructor (setQualifier EvqConst t) arguments)"
proof -
  have "\<And>field. field \<in> set (fieldList (getStruct t)) \<Longrightarrow> \<exists>y. CreateZeroNode (fieldType field) = Inr y"
    using CreateZeroNode_returns by blast
  from all_Inr_map [of "fieldList (getStruct t)" "\<lambda>field. CreateZeroNode (fieldType field)", OF this]
  obtain ys where ys: "map (\<lambda>field. CreateZeroNode (fieldType field)) (fieldList (getStruct t)) = map Inr ys"
    by blast
  with assms have "CreateZeroNode t = Inr (CreateConstructor (setQualifier EvqConst t) ys)"
    by (subst CreateZeroNode.simps) (simp add: Let_def sequence_results_map_Inr)
  with ys show ?thesis by blast
qed

lemma typeWeight_setQualifier: "typeWeight (setQualifier q t) = typeWeight t"
  by (subst typeWeight.simps, subst (2) typeWeight.simps) (simp add: setQualifier_def)

lemma typeWeight_toArrayElementType:
  "isArray t \<Longrightarrow> Suc (typeWeight (toArrayElementType t)) = typeWeight t"
  by (subst typeWeight.simps, subst (2) typeWeight.simps)
     (simp add: toArrayElementType_def isArray_def)

lemma typeWeight_stripArrayDimensions:
  "typeWeight (stripArrayDimensions t) + length (arraySizes t) = typeWeight t"
  by (subst typeWeight.simps, subst (2) typeWeight.simps) (simp add: stripArrayDimensions_eq)

lemma typeWeight_field:
  assumes "field \<in> set (fieldList (getStruct t))"
  shows "typeWeight (fieldType field) < typeWeight t"
proof -
  have "typeWeight (fieldType field) \<in> set (map (\<lambda>field. typeWeight (fieldType field)) (fieldList (getStruct t)))"
    using assms by auto
  then have "typeWeight (fieldType field) \<le> sum_list (map (\<lambda>field. typeWeight (fieldType field)) (fieldList (getStruct t)))"
    by (rule member_le_sum_list) simp
  then show ?thesis
    by (subst (2) typeWeight.simps) simp
qed

lemma CreateZeroNode_calls_descend:
  assumes "t' \<in> set (CreateZeroNode_calls t)"
  shows "typeWeight t' < typeWeight t"
proof (cases "\<not> isArray t \<and> getBasicType t \<noteq> EbtStruct")
  case True
  with assms show ?thesis by (simp add: CreateZeroNode_calls_def)
next
  case nb: False
  show ?thesis
  proof (cases "getBasicType t = EbtVoid")
    case True
    with nb have arr: "isArray t" by auto
    from True nb assms have t': "t' = stripArrayDimensions (setQualifier EvqConst t)"
      by (simp add: CreateZeroNode_calls_def)
    have eq: "typeWeight (stripArrayDimensions (setQualifier EvqConst t))
              + length (arraySizes (setQualifier EvqConst t)) = typeWeight t"
      by (simp add: typeWeight_stripArrayDimensions typeWeight_setQualifier)
    have pos: "0 < length (arraySizes (setQualifier EvqConst t))"
      using arr by (simp add: isArray_def setQualifier_def)
    from eq pos have "typeWeight (stripArrayDimensions (setQualifier EvqConst t)) < typeWeight t"
      by linarith
    with t' show ?thesis by simp
  next
    case nv: False
    show ?thesis
    proof (cases "isArray t")
      case True
      with nb nv assms have "t' = toArrayElementType t"
        by (simp add: CreateZeroNode_calls_def split: if_splits)
      with typeWeight_toArrayElementType [OF True] show ?thesis by simp
    next
      case False
      with nb nv assms obtain field where "field \<in> set (fieldList (getStruct t))" "t' = fieldType field"
        by (auto simp: CreateZeroNode_calls_def)
      then show ?thesis by (simp add: typeWeight_field)
    qed
  qed
qed

lemma CreateZeroNode_rel_calls: "CreateZeroNode_rel t' t \<longleftrightarrow> t' \<in> set (CreateZeroNode_calls t)"
  by (auto simp: CreateZeroNode_rel.simps CreateZeroNode_calls_def)

lemma wf_CreateZeroNode_calls: "wf {(t', t). t' \<in> set (CreateZeroNode_calls t)}"
proof (rule wf_subset)
  show "wf (measure typeWeight)" by simp
  show "{(t', t). t' \<in> set (CreateZeroNode_calls t)} \<subseteq> measure typeWeight"
    by (auto simp: CreateZeroNode_calls_descend)
qed

lemma getObjectSize_basic:
  "getBasicType t \<noteq> EbtStruct \<Longrightarrow>
   getObjectSize t = foldl (\<lambda>total arraySize. total * arraySize) (getNominalSize t * getSecondarySize t) (arraySizes t)"
  by (subst getObjectSize.simps) simp

lemma CreateZeroNode_dom_all: "CreateZeroNode_dom t"
proof (rule accp_wfpD)
  have "{(a, b). CreateZeroNode_rel a b} = {(a, b). a \<in> set (CreateZeroNode_calls b)}"
    by (simp add: CreateZeroNode_rel_calls)
  with wf_CreateZeroNode_calls show "wfp CreateZeroNode_rel"
    by (simp add: wfp_def)
qed

text \<open>
  Claim C1, as amended. For every type descriptor, malformed ones included (an unexpected
  basic type, void declared as an array), \<^verbatim>\<open>CreateZeroNode\<close> does not fail, and the type of
  the node it returns is a clone of the input type with the qualifier set to \<open>EvqConst\<close>,
  except for void declared as an array, where that clone has lost all its array
  dimensions (the comment of lines 91-93).
\<close>

theorem CreateZeroNode_type:
  "\<exists>n. CreateZeroNode t = Inr n \<and>
       getType opType n =
         (if isArray t \<and> getBasicType t = EbtVoid
          then stripArrayDimensions (setQualifier EvqConst t)
          else setQualifier EvqConst t)"
proof (cases "\<not> isArray t \<and> getBasicType t \<noteq> EbtStruct")
  case True
  then show ?thesis
    by (simp add: CreateZeroNode_basic getType_def newNode_def)
next
  case nb: False
  show ?thesis
  proof (cases "getBasicType t = EbtVoid")
    case True
    with nb have arr: "isArray t" by auto
    let ?s = "stripArrayDimensions (setQualifier EvqConst t)"
    have "\<not> isArray ?s" "getBasicType ?s \<noteq> EbtStruct" "getQualifier ?s = EvqConst"
      using True by (simp_all add: stripArrayDimensions_eq isArray_def setQualifier_def)
    then show ?thesis
      using arr True
      by (simp add: CreateZeroNode_void_array CreateZeroNode_basic getType_def newNode_def
                    setQualifier_same)
  next
    case nv: False
    show ?thesis
    proof (cases "isArray t")
      case True
      from CreateZeroNode_array [OF True nv] nv show ?thesis
        by (auto simp: getType_def newNode_def CreateConstructor_def)
    next
      case False
      with nb have "getBasicType t = EbtStruct" by simp
      from CreateZeroNode_struct [OF False this] False show ?thesis
        by (auto simp: getType_def newNode_def CreateConstructor_def)
    qed
  qed
qed


theorem CreateZeroNode_type_witness:
  "\<exists>n. CreateZeroNode (TType EbtVoid EbpUndefined EvqTemporary 1 1 [3] noStructure) = Inr n \<and>
       getType (\<lambda>n. TType_basic EbtVoid EbpUndefined EvqTemporary 1) n =
         TType EbtVoid EbpUndefined EvqConst 1 1 [] noStructure"
  using CreateZeroNode_type [of "TType EbtVoid EbpUndefined EvqTemporary 1 1 [3] noStructure"
                                "\<lambda>n. TType_basic EbtVoid EbpUndefined EvqTemporary 1"]
  by (simp add: stripArrayDimensions_eq isArray_def setQualifier_def)

text \<open>
  Claim C1 as stated fails on void declared as an array: for \<^verbatim>\<open>void[3]\<close> the node returned
  is a constant of the non-array void type, which is not the clone of the input type
  with the qualifier set to \<open>EvqConst\<close>.
\<close>

theorem CreateZeroNode_type_counterexample:
  "CreateZeroNode (TType EbtVoid EbpUndefined EvqTemporary 1 1 [3] noStructure) =
     Inr (TIntermNode defaultLine
            (TIntermConstantUnion [IConst 42] (TType EbtVoid EbpUndefined EvqConst 1 1 [] noStructure))) \<and>
   TType EbtVoid EbpUndefined EvqConst 1 1 [] noStructure \<noteq>
     setQualifier EvqConst (TType EbtVoid EbpUndefined EvqTemporary 1 1 [3] noStructure)"
  by (simp add: CreateZeroNode_void_array CreateZeroNode_basic stripArrayDimensions_eq
                getObjectSize_basic isArray_def setQualifier_def newNode_def)

text \<open>
  Claim C3. For a non-array type \<open>t\<close> whose basic type is float, int, uint or bool (so
  not a struct), \<^verbatim>\<open>CreateZeroNode\<close> returns a constant node holding exactly
  \<open>getObjectSize t\<close> components, each the zero of the basic type (\<open>0.0\<close>, \<open>0\<close>, \<open>0u\<close>,
  \<open>false\<close>). The node is a constant of type \<open>t\<close>: its type is \<open>t\<close> marked \<open>EvqConst\<close>, as
  the type of every constant node is.
\<close>

theorem CreateZeroNode_scalar_zero:
  assumes "\<not> isArray t"
  shows "(getBasicType t = EbtFloat \<longrightarrow>
            CreateZeroNode t =
              Inr (newNode (TIntermConstantUnion (replicate (getObjectSize t) (FConst 0))
                                                 (setQualifier EvqConst t)))) \<and>
         (getBasicType t = EbtInt \<longrightarrow>
            CreateZeroNode t =
              Inr (newNode (TIntermConstantUnion (replicate (getObjectSize t) (IConst 0))
                                                 (setQualifier EvqConst t)))) \<and>
         (getBasicType t = EbtUInt \<longrightarrow>
            CreateZeroNode t =
              Inr (newNode (TIntermConstantUnion (replicate (getObjectSize t) (UConst 0))
                                                 (setQualifier EvqConst t)))) \<and>
         (getBasicType t = EbtBool \<longrightarrow>
            CreateZeroNode t =
              Inr (newNode (TIntermConstantUnion (replicate (getObjectSize t) (BConst False))
                                                 (setQualifier EvqConst t))))"
  using assms by (simp add: CreateZeroNode_basic)

theorem CreateZeroNode_scalar_zero_witness:
  "CreateZeroNode (TType_basic EbtFloat EbpHigh EvqTemporary 3) =
     Inr (TIntermNode defaultLine
            (TIntermConstantUnion [FConst 0, FConst 0, FConst 0] (TType_basic EbtFloat EbpHigh EvqConst 3))) \<and>
   CreateZeroNode (TType_basic EbtInt EbpMedium EvqGlobal 1) =
     Inr (TIntermNode defaultLine
            (TIntermConstantUnion [IConst 0] (TType_basic EbtInt EbpMedium EvqConst 1))) \<and>
   CreateZeroNode (TType_basic EbtUInt EbpLow EvqUniform 2) =
     Inr (TIntermNode defaultLine
            (TIntermConstantUnion [UConst 0, UConst 0] (TType_basic EbtUInt EbpLow EvqConst 2))) \<and>
   CreateZeroNode (TType EbtBool EbpUndefined EvqConst 2 2 [] noStructure) =
     Inr (TIntermNode defaultLine
            (TIntermConstantUnion [BConst False, BConst False, BConst False, BConst False]
               (TType EbtBool EbpUndefined EvqConst 2 2 [] noStructure)))"
  using CreateZeroNode_scalar_zero [of "TType_basic EbtFloat EbpHigh EvqTemporary 3"]
        CreateZeroNode_scalar_zero [of "TType_basic EbtInt EbpMedium EvqGlobal 1"]
        CreateZeroNode_scalar_zero [of "TType_basic EbtUInt EbpLow EvqUniform 2"]
        CreateZeroNode_scalar_zero [of "TType EbtBool EbpUndefined EvqConst 2 2 [] noStructure"]
  by (simp add: TType_basic_def isArray_def getObjectSize_basic setQualifier_def newNode_def
                numeral_3_eq_3 numeral_eq_Suc)

text \<open>
  Claim C4. For an array type \<open>t\<close> that is not void, with outermost dimension
  \<open>getOutermostArraySize t\<close> and element type \<open>toArrayElementType t\<close>, \<^verbatim>\<open>CreateZeroNode\<close>
  returns a constructor call with exactly that many arguments, each equal to the zero
  node of the element type; the element type may be an array type again.
\<close>

theorem CreateZeroNode_array_constructor:
  assumes "isArray t" and "getBasicType t \<noteq> EbtVoid"
  shows "\<exists>z arguments.
           CreateZeroNode (toArrayElementType t) = Inr z \<and>
           CreateZeroNode t =
             Inr (newNode (TIntermAggregate (Constructor (setQualifier EvqConst t)) arguments)) \<and>
           length arguments = getOutermostArraySize t \<and>
           (\<forall>i < getOutermostArraySize t. arguments ! i = z)"
proof -
  from CreateZeroNode_array [OF assms] obtain z where
    z: "CreateZeroNode (toArrayElementType t) = Inr z" and
    r: "CreateZeroNode t =
          Inr (CreateConstructor (setQualifier EvqConst t) (replicate (getOutermostArraySize t) z))"
    by blast
  let ?arguments = "replicate (getOutermostArraySize t) z"
  have "length ?arguments = getOutermostArraySize t"
    by simp
  moreover have "\<forall>i < getOutermostArraySize t. ?arguments ! i = z"
    by simp
  ultimately show ?thesis
    using z r unfolding CreateConstructor_def by blast
qed

theorem CreateZeroNode_array_constructor_witness:
  "isArray (TType EbtFloat EbpHigh EvqTemporary 1 1 [2] noStructure) \<and>
   getBasicType (TType EbtFloat EbpHigh EvqTemporary 1 1 [2] noStructure) \<noteq> EbtVoid \<and>
   CreateZeroNode (TType EbtFloat EbpHigh EvqTemporary 1 1 [2] noStructure) =
     Inr (TIntermNode defaultLine
            (TIntermAggregate (Constructor (TType EbtFloat EbpHigh EvqConst 1 1 [2] noStructure))
               [TIntermNode defaultLine
                  (TIntermConstantUnion [FConst 0] (TType EbtFloat EbpHigh EvqConst 1 1 [] noStructure)),
                TIntermNode defaultLine
                  (TIntermConstantUnion [FConst 0] (TType EbtFloat EbpHigh EvqConst 1 1 [] noStructure))]))"
proof -
  let ?t = "TType EbtFloat EbpHigh EvqTemporary 1 1 [2] noStructure"
  have a: "isArray ?t"
    by (simp add: isArray_def)
  have b: "getBasicType ?t \<noteq> EbtVoid"
    by simp
  from CreateZeroNode_array_constructor [OF a b] obtain z arguments where
    z: "CreateZeroNode (toArrayElementType ?t) = Inr z" and
    r: "CreateZeroNode ?t =
          Inr (newNode (TIntermAggregate (Constructor (setQualifier EvqConst ?t)) arguments))" and
    len: "length arguments = getOutermostArraySize ?t" and
    el: "\<forall>i < getOutermostArraySize ?t. arguments ! i = z"
    by blast
  have "CreateZeroNode (toArrayElementType ?t) =
          Inr (TIntermNode defaultLine
                 (TIntermConstantUnion [FConst 0] (TType EbtFloat EbpHigh EvqConst 1 1 [] noStructure)))"
    by (simp add: CreateZeroNode_basic toArrayElementType_def isArray_def getObjectSize_basic
                  setQualifier_def newNode_def)
  with z have z': "z = TIntermNode defaultLine
                 (TIntermConstantUnion [FConst 0] (TType EbtFloat EbpHigh EvqConst 1 1 [] noStructure))"
    by simp
  from len el have "arguments = [z, z]"
    by (auto simp: getOutermostArraySize_def length_Suc_conv numeral_2_eq_2)
  with r z' a b show ?thesis
    by (simp add: setQualifier_def newNode_def)
qed

text \<open>
  Claim C5. For a struct type \<open>t\<close> that is not an array, \<^verbatim>\<open>CreateZeroNode\<close> returns a
  constructor call with one argument per field, in the order of the declaration, the
  argument of a field being the zero node of the type of that field.
\<close>

theorem CreateZeroNode_struct_constructor:
  assumes "\<not> isArray t" and "getBasicType t = EbtStruct"
  shows "\<exists>arguments.
           CreateZeroNode t =
             Inr (newNode (TIntermAggregate (Constructor (setQualifier EvqConst t)) arguments)) \<and>
           length arguments = length (fieldList (getStruct t)) \<and>
           (\<forall>i < length (fieldList (getStruct t)).
              CreateZeroNode (fieldType (fieldList (getStruct t) ! i)) = Inr (arguments ! i))"
proof -
  from CreateZeroNode_struct [OF assms] obtain arguments where
    m: "map (\<lambda>field. CreateZeroNode (fieldType field)) (fieldList (getStruct t)) = map Inr arguments" and
    r: "CreateZeroNode t = Inr (CreateConstructor (setQualifier EvqConst t) arguments)"
    by blast
  from m have len: "length arguments = length (fieldList (getStruct t))"
    by (metis length_map)
  have "CreateZeroNode (fieldType (fieldList (getStruct t) ! i)) = Inr (arguments ! i)"
    if "i < length (fieldList (getStruct t))" for i
  proof -
    have "map (\<lambda>field. CreateZeroNode (fieldType field)) (fieldList (getStruct t)) ! i
          = map Inr arguments ! i"
      by (simp only: m)
    with that len show ?thesis by simp
  qed
  with len r show ?thesis
    unfolding CreateConstructor_def by blast
qed

theorem CreateZeroNode_struct_constructor_witness:
  "CreateZeroNode (TType EbtStruct EbpUndefined EvqTemporary 1 1 []
                     (TStructure ''S'' [TField (TType_basic EbtInt EbpHigh EvqTemporary 2) ''a'',
                                        TField (TType_basic EbtBool EbpUndefined EvqTemporary 1) ''b''])) =
     Inr (TIntermNode defaultLine
            (TIntermAggregate
               (Constructor (TType EbtStruct EbpUndefined EvqConst 1 1 []
                     (TStructure ''S'' [TField (TType_basic EbtInt EbpHigh EvqTemporary 2) ''a'',
                                        TField (TType_basic EbtBool EbpUndefined EvqTemporary 1) ''b''])))
               [TIntermNode defaultLine
                  (TIntermConstantUnion [IConst 0, IConst 0] (TType_basic EbtInt EbpHigh EvqConst 2)),
                TIntermNode defaultLine
                  (TIntermConstantUnion [BConst False] (TType_basic EbtBool EbpUndefined EvqConst 1))]))"
proof -
  let ?a = "TType_basic EbtInt EbpHigh EvqTemporary 2"
  let ?b = "TType_basic EbtBool EbpUndefined EvqTemporary 1"
  let ?t = "TType EbtStruct EbpUndefined EvqTemporary 1 1 []
              (TStructure ''S'' [TField ?a ''a'', TField ?b ''b''])"
  have a: "\<not> isArray ?t"
    by (simp add: isArray_def)
  have b: "getBasicType ?t = EbtStruct"
    by simp
  from CreateZeroNode_struct_constructor [OF a b] obtain arguments where
    r: "CreateZeroNode ?t =
          Inr (newNode (TIntermAggregate (Constructor (setQualifier EvqConst ?t)) arguments))" and
    len: "length arguments = length (fieldList (getStruct ?t))" and
    el: "\<forall>i < length (fieldList (getStruct ?t)).
           CreateZeroNode (fieldType (fieldList (getStruct ?t) ! i)) = Inr (arguments ! i)"
    by blast
  from el have "CreateZeroNode ?a = Inr (arguments ! 0)" "CreateZeroNode ?b = Inr (arguments ! 1)"
    by auto
  moreover have "CreateZeroNode ?a =
      Inr (TIntermNode defaultLine
             (TIntermConstantUnion [IConst 0, IConst 0] (TType_basic EbtInt EbpHigh EvqConst 2)))"
    by (simp add: CreateZeroNode_basic TType_basic_def isArray_def getObjectSize_basic
                  setQualifier_def newNode_def numeral_2_eq_2)
  moreover have "CreateZeroNode ?b =
      Inr (TIntermNode defaultLine
             (TIntermConstantUnion [BConst False] (TType_basic EbtBool EbpUndefined EvqConst 1)))"
    by (simp add: CreateZeroNode_basic TType_basic_def isArray_def getObjectSize_basic
                  setQualifier_def newNode_def)
  ultimately have
    "arguments ! 0 = TIntermNode defaultLine
             (TIntermConstantUnion [IConst 0, IConst 0] (TType_basic EbtInt EbpHigh EvqConst 2))"
    "arguments ! 1 = TIntermNode defaultLine
             (TIntermConstantUnion [BConst False] (TType_basic EbtBool EbpUndefined EvqConst 1))"
    by simp_all
  moreover from len have "arguments = [arguments ! 0, arguments ! 1]"
    by (auto simp: length_Suc_conv numeral_2_eq_2)
  ultimately have "arguments =
     [TIntermNode defaultLine
             (TIntermConstantUnion [IConst 0, IConst 0] (TType_basic EbtInt EbpHigh EvqConst 2)),
      TIntermNode defaultLine
             (TIntermConstantUnion [BConst False] (TType_basic EbtBool EbpUndefined EvqConst 1))]"
    by simp
  with r show ?thesis
    by (simp add: setQualifier_def newNode_def)
qed

text \<open>
  Claim C10. \<^verbatim>\<open>CreateZeroNode\<close> terminates on every type descriptor. Each recursive call
  it makes on \<open>t\<close> (the list \<open>CreateZeroNode_calls t\<close>, which by \<open>CreateZeroNode_rel_calls\<close>
  is the recursion relation of the function) is on a type of strictly smaller weight:
  the element type has one dimension fewer, a field type is a part of the struct, the
  void type without dimensions has lost at least one. So the call relation is
  well-founded, every type is in the domain of the recursion, and a node is returned.
\<close>

theorem CreateZeroNode_terminates:
  "(\<forall>t' \<in> set (CreateZeroNode_calls t). typeWeight t' < typeWeight t) \<and>
   wf {(a, b). a \<in> set (CreateZeroNode_calls b)} \<and>
   CreateZeroNode_dom t \<and>
   (\<exists>n. CreateZeroNode t = Inr n)"
  using CreateZeroNode_calls_descend wf_CreateZeroNode_calls CreateZeroNode_dom_all
        CreateZeroNode_returns
  by blast

theorem CreateZeroNode_terminates_witness:
  "CreateZeroNode_calls (TType EbtFloat EbpHigh EvqTemporary 1 1 [2, 3] noStructure) =
     [TType EbtFloat EbpHigh EvqTemporary 1 1 [3] noStructure,
      TType EbtFloat EbpHigh EvqTemporary 1 1 [3] noStructure] \<and>
   typeWeight (TType EbtFloat EbpHigh EvqTemporary 1 1 [3] noStructure)
     < typeWeight (TType EbtFloat EbpHigh EvqTemporary 1 1 [2, 3] noStructure) \<and>
   CreateZeroNode_dom (TType EbtFloat EbpHigh EvqTemporary 1 1 [2, 3] noStructure) \<and>
   (\<exists>n. CreateZeroNode (TType EbtFloat EbpHigh EvqTemporary 1 1 [2, 3] noStructure) = Inr n)"
proof -
  let ?t = "TType EbtFloat EbpHigh EvqTemporary 1 1 [2, 3] noStructure"
  let ?e = "TType EbtFloat EbpHigh EvqTemporary 1 1 [3] noStructure"
  have c: "CreateZeroNode_calls ?t = [?e, ?e]"
    by (simp add: CreateZeroNode_calls_def isArray_def getOutermostArraySize_def
                  toArrayElementType_def numeral_2_eq_2)
  then have "?e \<in> set (CreateZeroNode_calls ?t)"
    by simp
  with CreateZeroNode_terminates [of ?t] c show ?thesis
    by blast
qed

section \<open>Constants, temporaries, blocks and builtin calls\<close>

text \<open>
  Claim C9. For every 32-bit integer \<open>v\<close>, \<^verbatim>\<open>CreateIndexNode\<close> returns a constant node with
  the single component \<open>IConst v\<close>, of basic type int, qualifier \<open>EvqConst\<close>, undefined
  precision, not an array, of object size one; for every \<open>b\<close>, \<^verbatim>\<open>CreateBoolNode\<close> returns
  the same for bool and \<open>BConst b\<close>. Neither function has a failing branch.
\<close>

theorem CreateIndexNode_CreateBoolNode_constant:
  "(\<exists>u t. CreateIndexNode v = TIntermNode defaultLine (TIntermConstantUnion u t) \<and>
           u = [IConst v] \<and> getBasicType t = EbtInt \<and> getQualifier t = EvqConst \<and>
           getPrecision t = EbpUndefined \<and> \<not> isArray t \<and> getObjectSize t = 1) \<and>
   (\<exists>u t. CreateBoolNode b = TIntermNode defaultLine (TIntermConstantUnion u t) \<and>
           u = [BConst b] \<and> getBasicType t = EbtBool \<and> getQualifier t = EvqConst \<and>
           getPrecision t = EbpUndefined \<and> \<not> isArray t \<and> getObjectSize t = 1)"
  by (simp add: CreateIndexNode_def CreateBoolNode_def newNode_def TType_basic_def isArray_def
                getObjectSize_basic)

theorem CreateIndexNode_CreateBoolNode_constant_witness:
  "CreateIndexNode 5 =
     TIntermNode defaultLine (TIntermConstantUnion [IConst 5] (TType EbtInt EbpUndefined EvqConst 1 1 [] noStructure)) \<and>
   CreateBoolNode True =
     TIntermNode defaultLine (TIntermConstantUnion [BConst True] (TType EbtBool EbpUndefined EvqConst 1 1 [] noStructure))"
  using CreateIndexNode_CreateBoolNode_constant [of 5 True]
  by (auto simp: CreateIndexNode_def CreateBoolNode_def newNode_def TType_basic_def)

text \<open>
  Claim C7. \<^verbatim>\<open>EnsureBlock\<close> maps null to null and a block to itself, and wraps any other
  node in a new block that has the node as its single statement and the location of the
  node; hence applying it twice is applying it once, for null as for any node.
\<close>

theorem EnsureBlock_idempotent:
  "EnsureBlock None = None \<and>
   (getAsBlock n \<noteq> None \<longrightarrow> EnsureBlock (Some n) = Some n) \<and>
   (getAsBlock n = None \<longrightarrow> EnsureBlock (Some n) = Some (TIntermNode (getLine n) (TIntermBlock [n]))) \<and>
   EnsureBlock (EnsureBlock x) = EnsureBlock x"
proof -
  have idem: "EnsureBlock (EnsureBlock x) = EnsureBlock x"
  proof (cases x)
    case None
    then show ?thesis by (simp add: EnsureBlock_def)
  next
    case (Some m)
    then show ?thesis
      by (cases m; cases "nodeKind m")
         (simp_all add: EnsureBlock_def getAsBlock_def newNode_def setLine_def appendStatement_def)
  qed
  have "getAsBlock n = None \<longrightarrow>
        EnsureBlock (Some n) = Some (TIntermNode (getLine n) (TIntermBlock [n]))"
    by (simp add: EnsureBlock_def newNode_def setLine_def appendStatement_def)
  moreover have "getAsBlock n \<noteq> None \<longrightarrow> EnsureBlock (Some n) = Some n"
    by (cases "nodeKind n") (simp_all add: EnsureBlock_def getAsBlock_def)
  moreover have "EnsureBlock None = None"
    by (simp add: EnsureBlock_def)
  ultimately show ?thesis
    using idem by blast
qed

theorem EnsureBlock_idempotent_witness:
  "getAsBlock (CreateBoolNode True) = None \<and>
   EnsureBlock (Some (CreateBoolNode True)) =
     Some (TIntermNode defaultLine (TIntermBlock [CreateBoolNode True])) \<and>
   getAsBlock (TIntermNode defaultLine (TIntermBlock [CreateBoolNode True])) =
     Some (TIntermNode defaultLine (TIntermBlock [CreateBoolNode True])) \<and>
   EnsureBlock (Some (TIntermNode defaultLine (TIntermBlock [CreateBoolNode True]))) =
     Some (TIntermNode defaultLine (TIntermBlock [CreateBoolNode True])) \<and>
   EnsureBlock (EnsureBlock (Some (CreateBoolNode True))) = EnsureBlock (Some (CreateBoolNode True))"
  using EnsureBlock_idempotent [of "CreateBoolNode True" "Some (CreateBoolNode True)"]
        EnsureBlock_idempotent [of "TIntermNode defaultLine (TIntermBlock [CreateBoolNode True])" None]
  by (simp add: getAsBlock_def CreateBoolNode_def newNode_def)

text \<open>
  Claim C8. \<^verbatim>\<open>CreateTempSymbolNode\<close> fails an assertion exactly when the variable is not
  tagged \<open>AngleInternal\<close> or the qualifier of its type is none of \<open>EvqTemporary\<close>,
  \<open>EvqConst\<close>, \<open>EvqGlobal\<close>; for an internal variable with one of the three qualifiers it
  returns the reference node of the variable.
\<close>

theorem CreateTempSymbolNode_assertion:
  "(CreateTempSymbolNode tempVariable = Inl AssertionFailure) =
     (symbolType tempVariable \<noteq> AngleInternal \<or>
      getQualifier (variableType tempVariable) \<notin> {EvqTemporary, EvqConst, EvqGlobal}) \<and>
   (symbolType tempVariable = AngleInternal \<and>
    getQualifier (variableType tempVariable) \<in> {EvqTemporary, EvqConst, EvqGlobal} \<longrightarrow>
      CreateTempSymbolNode tempVariable = Inr (TIntermNode defaultLine (TIntermSymbol tempVariable)))"
proof (intro conjI impI)
  show "(CreateTempSymbolNode tempVariable = Inl AssertionFailure) =
          (symbolType tempVariable \<noteq> AngleInternal \<or>
           getQualifier (variableType tempVariable) \<notin> {EvqTemporary, EvqConst, EvqGlobal})"
    by (auto simp: CreateTempSymbolNode_def)
next
  assume "symbolType tempVariable = AngleInternal \<and>
          getQualifier (variableType tempVariable) \<in> {EvqTemporary, EvqConst, EvqGlobal}"
  then show "CreateTempSymbolNode tempVariable =
               Inr (TIntermNode defaultLine (TIntermSymbol tempVariable))"
    by (auto simp: CreateTempSymbolNode_def newNode_def)
qed

theorem CreateTempSymbolNode_assertion_witness:
  "CreateTempSymbolNode \<lparr>uniqueId = 7, symbolName = [], variableType = TType_basic EbtFloat EbpHigh EvqGlobal 4,
                          symbolType = AngleInternal\<rparr> =
     Inr (TIntermNode defaultLine (TIntermSymbol
            \<lparr>uniqueId = 7, symbolName = [], variableType = TType_basic EbtFloat EbpHigh EvqGlobal 4,
             symbolType = AngleInternal\<rparr>)) \<and>
   CreateTempSymbolNode \<lparr>uniqueId = 7, symbolName = [], variableType = TType_basic EbtFloat EbpHigh EvqUniform 4,
                          symbolType = AngleInternal\<rparr> = Inl AssertionFailure \<and>
   CreateTempSymbolNode \<lparr>uniqueId = 7, symbolName = ''x'', variableType = TType_basic EbtFloat EbpHigh EvqTemporary 4,
                          symbolType = UserDefined\<rparr> = Inl AssertionFailure"
  using CreateTempSymbolNode_assertion
          [of "\<lparr>uniqueId = 7, symbolName = [], variableType = TType_basic EbtFloat EbpHigh EvqGlobal 4,
                symbolType = AngleInternal\<rparr>"]
        CreateTempSymbolNode_assertion
          [of "\<lparr>uniqueId = 7, symbolName = [], variableType = TType_basic EbtFloat EbpHigh EvqUniform 4,
                symbolType = AngleInternal\<rparr>"]
        CreateTempSymbolNode_assertion
          [of "\<lparr>uniqueId = 7, symbolName = ''x'', variableType = TType_basic EbtFloat EbpHigh EvqTemporary 4,
                symbolType = UserDefined\<rparr>"]
  by (simp add: TType_basic_def)

lemma getAsTyped_Some: "getAsTyped n \<noteq> None \<Longrightarrow> getAsTyped n = Some n"
  by (cases "nodeKind n") (simp_all add: getAsTyped_def)

lemma LookUpBuiltInFunction_typed:
  assumes "LookUpBuiltInFunction mangle opType n arguments symbolTable shaderVersion = Inr r"
  shows "list_all (\<lambda>argument. getAsTyped argument = Some argument) arguments"
proof -
  from assms have "list_all (\<lambda>argument. getAsTyped argument \<noteq> None) arguments"
    by (auto simp: LookUpBuiltInFunction_def GetMangledName_def split: if_splits)
  then show ?thesis
    by (induction arguments) (simp_all add: getAsTyped_Some)
qed

text \<open>
  Claim C2. \<^verbatim>\<open>CreateBuiltInFunctionCallNode\<close> returns a node exactly when the lookup
  resolves a function; the node is then the unary operation carrying the operator of the
  function, the argument and the function if that operator is not
  \<open>EOpCallBuiltInFunction\<close> and there is exactly one argument, and it is the builtin call
  over all the arguments, in their order, in every other case.
\<close>

theorem CreateBuiltInFunctionCallNode_shape:
  "(CreateBuiltInFunctionCallNode mangle opType n arguments symbolTable shaderVersion = Inr node) =
   (\<exists>fn. LookUpBuiltInFunction mangle opType n arguments symbolTable shaderVersion = Inr (Some fn) \<and>
         node =
           (if getBuiltInOp fn \<noteq> EOpCallBuiltInFunction \<and> length arguments = 1
            then TIntermNode defaultLine (TIntermUnary (getBuiltInOp fn) (Some (arguments ! 0)) fn)
            else TIntermNode defaultLine (TIntermAggregate (BuiltInFunctionCall fn) arguments)))"
proof (cases "LookUpBuiltInFunction mangle opType n arguments symbolTable shaderVersion")
  case (Inl e)
  then show ?thesis
    by (simp add: CreateBuiltInFunctionCallNode_def)
next
  case (Inr r)
  show ?thesis
  proof (cases r)
    case None
    with Inr show ?thesis
      by (simp add: CreateBuiltInFunctionCallNode_def)
  next
    case (Some fn)
    from LookUpBuiltInFunction_typed [OF Inr]
    have "length arguments = 1 \<Longrightarrow> getAsTyped (arguments ! 0) = Some (arguments ! 0)"
      by (cases arguments) simp_all
    with Inr Some show ?thesis
      by (auto simp: CreateBuiltInFunctionCallNode_def Let_def newNode_def
                     CreateBuiltInFunctionCall_def)
  qed
qed


theorem CreateBuiltInFunctionCallNode_shape_witness:
  "let float = TType_basic EbtFloat EbpHigh EvqTemporary 2;
       sinFn = \<lparr>functionName = ''sin'', getReturnType = float, getBuiltInOp = EOpSin\<rparr>;
       minFn = \<lparr>functionName = ''min'', getReturnType = float, getBuiltInOp = EOpMin\<rparr>;
       helperFn = \<lparr>functionName = ''helper'', getReturnType = float,
                   getBuiltInOp = EOpCallBuiltInFunction\<rparr>;
       table = \<lparr>nextUniqueId = 0, findGlobal = (\<lambda>n. None),
                findBuiltIn = (\<lambda>m v. if v < 100 then None
                                     else if m = ''sin'' then Some (FunctionSymbol sinFn)
                                     else if m = ''min'' then Some (FunctionSymbol minFn)
                                     else if m = ''helper'' then Some (FunctionSymbol helperFn)
                                     else None)\<rparr>;
       x = TIntermNode defaultLine (TIntermConstantUnion [FConst 0, FConst 0] (setQualifier EvqConst float));
       y = TIntermNode defaultLine
             (TIntermSymbol \<lparr>uniqueId = 3, symbolName = ''v'', variableType = float, symbolType = UserDefined\<rparr>)
   in CreateBuiltInFunctionCallNode (\<lambda>n ts. n) (\<lambda>n. float) ''sin'' [x] table 300 =
        Inr (TIntermNode defaultLine (TIntermUnary EOpSin (Some x) sinFn)) \<and>
      CreateBuiltInFunctionCallNode (\<lambda>n ts. n) (\<lambda>n. float) ''min'' [x, y] table 300 =
        Inr (TIntermNode defaultLine (TIntermAggregate (BuiltInFunctionCall minFn) [x, y])) \<and>
      CreateBuiltInFunctionCallNode (\<lambda>n ts. n) (\<lambda>n. float) ''helper'' [x] table 300 =
        Inr (TIntermNode defaultLine (TIntermAggregate (BuiltInFunctionCall helperFn) [x]))"
proof -
  let ?float = "TType_basic EbtFloat EbpHigh EvqTemporary 2"
  let ?sinFn = "\<lparr>functionName = ''sin'', getReturnType = ?float, getBuiltInOp = EOpSin\<rparr>"
  let ?minFn = "\<lparr>functionName = ''min'', getReturnType = ?float, getBuiltInOp = EOpMin\<rparr>"
  let ?helperFn = "\<lparr>functionName = ''helper'', getReturnType = ?float,
                    getBuiltInOp = EOpCallBuiltInFunction\<rparr>"
  let ?table = "\<lparr>nextUniqueId = 0, findGlobal = (\<lambda>n. None),
                findBuiltIn = (\<lambda>m v. if v < (100::int) then None
                                     else if m = ''sin'' then Some (FunctionSymbol ?sinFn)
                                     else if m = ''min'' then Some (FunctionSymbol ?minFn)
                                     else if m = ''helper'' then Some (FunctionSymbol ?helperFn)
                                     else None)\<rparr>"
  let ?x = "TIntermNode defaultLine (TIntermConstantUnion [FConst 0, FConst 0] (setQualifier EvqConst ?float))"
  let ?y = "TIntermNode defaultLine
              (TIntermSymbol \<lparr>uniqueId = 3, symbolName = ''v'', variableType = ?float, symbolType = UserDefined\<rparr>)"
  have l1: "LookUpBuiltInFunction (\<lambda>n ts. n) (\<lambda>n. ?float) ''sin'' [?x] ?table 300 = Inr (Some ?sinFn)"
    by (simp add: LookUpBuiltInFunction_def GetMangledName_def getAsTyped_def)
  have l2: "LookUpBuiltInFunction (\<lambda>n ts. n) (\<lambda>n. ?float) ''min'' [?x, ?y] ?table 300 = Inr (Some ?minFn)"
    by (simp add: LookUpBuiltInFunction_def GetMangledName_def getAsTyped_def)
  have l3: "LookUpBuiltInFunction (\<lambda>n ts. n) (\<lambda>n. ?float) ''helper'' [?x] ?table 300 = Inr (Some ?helperFn)"
    by (simp add: LookUpBuiltInFunction_def GetMangledName_def getAsTyped_def)
  have "CreateBuiltInFunctionCallNode (\<lambda>n ts. n) (\<lambda>n. ?float) ''sin'' [?x] ?table 300 =
          Inr (TIntermNode defaultLine (TIntermUnary EOpSin (Some ?x) ?sinFn))"
    by (rule iffD2 [OF CreateBuiltInFunctionCallNode_shape])
       (rule exI [of _ ?sinFn], rule conjI, rule l1, simp)
  moreover have "CreateBuiltInFunctionCallNode (\<lambda>n ts. n) (\<lambda>n. ?float) ''min'' [?x, ?y] ?table 300 =
          Inr (TIntermNode defaultLine (TIntermAggregate (BuiltInFunctionCall ?minFn) [?x, ?y]))"
    by (rule iffD2 [OF CreateBuiltInFunctionCallNode_shape])
       (rule exI [of _ ?minFn], rule conjI, rule l2, simp)
  moreover have "CreateBuiltInFunctionCallNode (\<lambda>n ts. n) (\<lambda>n. ?float) ''helper'' [?x] ?table 300 =
          Inr (TIntermNode defaultLine (TIntermAggregate (BuiltInFunctionCall ?helperFn) [?x]))"
    by (rule iffD2 [OF CreateBuiltInFunctionCallNode_shape])
       (rule exI [of _ ?helperFn], rule conjI, rule l3, simp)
  ultimately show ?thesis
    by (simp add: Let_def)
qed

text \<open>
  Claim C6, as amended. Given a symbol table and a qualifier among \<open>EvqTemporary\<close>,
  \<open>EvqConst\<close>, \<open>EvqGlobal\<close>: \<^verbatim>\<open>DeclareTempVariable\<close> with a type returns a new anonymous
  internal variable (its identity is the next one of the table, which moves on) whose
  type is the given type with that qualifier, and the declaration holding the reference
  to the variable; with an initializer it returns such a variable whose type is the type
  of the initializer with that qualifier (the type of the initializer itself when it has
  the qualifier already), and the declaration holding the initialization of the reference
  by the initializer.
\<close>

theorem DeclareTempVariable_result:
  assumes "qualifier \<in> {EvqTemporary, EvqConst, EvqGlobal}"
  shows "(\<exists>variable.
            DeclareTempVariable (Some st) t qualifier =
              Inr (variable,
                   TIntermNode defaultLine
                     (TIntermDeclaration [TIntermNode defaultLine (TIntermSymbol variable)]),
                   st\<lparr>nextUniqueId := nextUniqueId st + 1\<rparr>) \<and>
            uniqueId variable = nextUniqueId st \<and> symbolName variable = [] \<and>
            symbolType variable = AngleInternal \<and>
            variableType variable = setQualifier qualifier t \<and>
            getQualifier (variableType variable) = qualifier) \<and>
         (\<exists>variable.
            DeclareTempVariable_initializer opType (Some st) (Some init) qualifier =
              Inr (variable,
                   TIntermNode defaultLine
                     (TIntermDeclaration
                        [TIntermNode defaultLine
                           (TIntermBinary EOpInitialize
                              (TIntermNode defaultLine (TIntermSymbol variable)) init)]),
                   st\<lparr>nextUniqueId := nextUniqueId st + 1\<rparr>) \<and>
            uniqueId variable = nextUniqueId st \<and> symbolName variable = [] \<and>
            symbolType variable = AngleInternal \<and>
            variableType variable = setQualifier qualifier (getType opType init) \<and>
            (getQualifier (getType opType init) = qualifier \<longrightarrow>
               variableType variable = getType opType init))"
proof -
  have q: "getQualifier (setQualifier qualifier u) = qualifier" for u
    by (simp add: setQualifier_def)
  have v: "CreateTempVariable_qualifier (Some st) u qualifier =
             Inr (\<lparr>uniqueId = nextUniqueId st, symbolName = [],
                   variableType = setQualifier qualifier u, symbolType = AngleInternal\<rparr>,
                  st\<lparr>nextUniqueId := nextUniqueId st + 1\<rparr>)" for u
    by (simp add: CreateTempVariable_qualifier_def CreateTempVariable_def new_TVariable_def
                  setQualifier_same)
  have s: "CreateTempSymbolNode
             \<lparr>uniqueId = nextUniqueId st, symbolName = [],
              variableType = setQualifier qualifier u, symbolType = AngleInternal\<rparr> =
           Inr (TIntermNode defaultLine
                  (TIntermSymbol \<lparr>uniqueId = nextUniqueId st, symbolName = [],
                      variableType = setQualifier qualifier u, symbolType = AngleInternal\<rparr>))" for u
    using assms by (auto simp: CreateTempSymbolNode_def newNode_def q)
  have "DeclareTempVariable (Some st) t qualifier =
          Inr (\<lparr>uniqueId = nextUniqueId st, symbolName = [],
                variableType = setQualifier qualifier t, symbolType = AngleInternal\<rparr>,
               TIntermNode defaultLine
                 (TIntermDeclaration
                    [TIntermNode defaultLine
                       (TIntermSymbol \<lparr>uniqueId = nextUniqueId st, symbolName = [],
                           variableType = setQualifier qualifier t, symbolType = AngleInternal\<rparr>)]),
               st\<lparr>nextUniqueId := nextUniqueId st + 1\<rparr>)"
    by (simp add: DeclareTempVariable_def v CreateTempDeclarationNode_def s newNode_def
                  appendDeclarator_def)
  moreover have "DeclareTempVariable_initializer opType (Some st) (Some init) qualifier =
          Inr (\<lparr>uniqueId = nextUniqueId st, symbolName = [],
                variableType = setQualifier qualifier (getType opType init),
                symbolType = AngleInternal\<rparr>,
               TIntermNode defaultLine
                 (TIntermDeclaration
                    [TIntermNode defaultLine
                       (TIntermBinary EOpInitialize
                          (TIntermNode defaultLine
                             (TIntermSymbol \<lparr>uniqueId = nextUniqueId st, symbolName = [],
                                 variableType = setQualifier qualifier (getType opType init),
                                 symbolType = AngleInternal\<rparr>))
                          init)]),
               st\<lparr>nextUniqueId := nextUniqueId st + 1\<rparr>)"
    by (simp add: DeclareTempVariable_initializer_def v CreateTempInitDeclarationNode_def s
                  newNode_def appendDeclarator_def)
  ultimately show ?thesis
    by (simp add: q setQualifier_same)
qed


theorem DeclareTempVariable_result_witness:
  "EvqGlobal \<in> {EvqTemporary, EvqConst, EvqGlobal} \<and>
   DeclareTempVariable
     (Some \<lparr>nextUniqueId = 8, findGlobal = (\<lambda>n. None), findBuiltIn = (\<lambda>m v. None)\<rparr>)
     (TType_basic EbtFloat EbpHigh EvqTemporary 4) EvqGlobal =
     Inr (\<lparr>uniqueId = 8, symbolName = [],
           variableType = TType_basic EbtFloat EbpHigh EvqGlobal 4, symbolType = AngleInternal\<rparr>,
          TIntermNode defaultLine
            (TIntermDeclaration
               [TIntermNode defaultLine
                  (TIntermSymbol \<lparr>uniqueId = 8, symbolName = [],
                      variableType = TType_basic EbtFloat EbpHigh EvqGlobal 4,
                      symbolType = AngleInternal\<rparr>)]),
          \<lparr>nextUniqueId = 9, findGlobal = (\<lambda>n. None), findBuiltIn = (\<lambda>m v. None)\<rparr>) \<and>
   DeclareTempVariable_initializer (\<lambda>n. TType_basic EbtVoid EbpUndefined EvqTemporary 4)
     (Some \<lparr>nextUniqueId = 8, findGlobal = (\<lambda>n. None), findBuiltIn = (\<lambda>m v. None)\<rparr>)
     (Some (CreateBoolNode True)) EvqGlobal =
     Inr (\<lparr>uniqueId = 8, symbolName = [],
           variableType = setQualifier EvqGlobal (TType_basic EbtBool EbpUndefined EvqConst 1),
           symbolType = AngleInternal\<rparr>,
          TIntermNode defaultLine
            (TIntermDeclaration
               [TIntermNode defaultLine
                  (TIntermBinary EOpInitialize
                     (TIntermNode defaultLine
                        (TIntermSymbol \<lparr>uniqueId = 8, symbolName = [],
                            variableType = setQualifier EvqGlobal (TType_basic EbtBool EbpUndefined EvqConst 1),
                            symbolType = AngleInternal\<rparr>))
                     (CreateBoolNode True))]),
          \<lparr>nextUniqueId = 9, findGlobal = (\<lambda>n. None), findBuiltIn = (\<lambda>m v. None)\<rparr>)"
proof -
  let ?st = "\<lparr>nextUniqueId = 8, findGlobal = (\<lambda>n. None), findBuiltIn = (\<lambda>m v. None)\<rparr>"
  have h: "EvqGlobal \<in> {EvqTemporary, EvqConst, EvqGlobal}"
    by simp
  have g: "getType (\<lambda>n. TType_basic EbtVoid EbpUndefined EvqTemporary 4) (CreateBoolNode True) =
             TType_basic EbtBool EbpUndefined EvqConst 1"
    by (simp add: getType_def CreateBoolNode_def newNode_def)
  have e: "v = \<lparr>uniqueId = uniqueId v, symbolName = symbolName v, variableType = variableType v,
                   symbolType = symbolType v\<rparr>" for v :: TVariable
    by simp
  from DeclareTempVariable_result
         [OF h, of ?st "TType_basic EbtFloat EbpHigh EvqTemporary 4"
                "\<lambda>n. TType_basic EbtVoid EbpUndefined EvqTemporary 4" "CreateBoolNode True"]
  obtain v w where
    v: "DeclareTempVariable (Some ?st) (TType_basic EbtFloat EbpHigh EvqTemporary 4) EvqGlobal =
          Inr (v, TIntermNode defaultLine (TIntermDeclaration [TIntermNode defaultLine (TIntermSymbol v)]),
               ?st\<lparr>nextUniqueId := nextUniqueId ?st + 1\<rparr>)"
       "uniqueId v = nextUniqueId ?st" "symbolName v = []" "symbolType v = AngleInternal"
       "variableType v = setQualifier EvqGlobal (TType_basic EbtFloat EbpHigh EvqTemporary 4)" and
    w: "DeclareTempVariable_initializer (\<lambda>n. TType_basic EbtVoid EbpUndefined EvqTemporary 4)
          (Some ?st) (Some (CreateBoolNode True)) EvqGlobal =
          Inr (w, TIntermNode defaultLine
                    (TIntermDeclaration
                       [TIntermNode defaultLine
                          (TIntermBinary EOpInitialize (TIntermNode defaultLine (TIntermSymbol w))
                             (CreateBoolNode True))]),
               ?st\<lparr>nextUniqueId := nextUniqueId ?st + 1\<rparr>)"
       "uniqueId w = nextUniqueId ?st" "symbolName w = []" "symbolType w = AngleInternal"
       "variableType w = setQualifier EvqGlobal
          (getType (\<lambda>n. TType_basic EbtVoid EbpUndefined EvqTemporary 4) (CreateBoolNode True))"
    by blast
  from v(2-5) have v': "v = \<lparr>uniqueId = 8, symbolName = [],
           variableType = TType_basic EbtFloat EbpHigh EvqGlobal 4, symbolType = AngleInternal\<rparr>"
    by (subst e [of v]) (simp add: setQualifier_def TType_basic_def)
  from w(2-5) have w': "w = \<lparr>uniqueId = 8, symbolName = [],
           variableType = setQualifier EvqGlobal (TType_basic EbtBool EbpUndefined EvqConst 1),
           symbolType = AngleInternal\<rparr>"
    by (subst e [of w]) (simp add: g)
  from v(1) w(1) show ?thesis
    unfolding v' w' by simp
qed

text \<open>
  Claim C6 as stated fails twice. With the qualifier \<open>EvqUniform\<close> the assertion of
  \<^verbatim>\<open>CreateTempSymbolNode\<close> fails and nothing is returned; with a constant as the initializer
  and the qualifier \<open>EvqTemporary\<close> the type of the variable is not the type of the
  initializer.
\<close>

theorem DeclareTempVariable_counterexample:
  "DeclareTempVariable
     (Some \<lparr>nextUniqueId = 8, findGlobal = (\<lambda>n. None), findBuiltIn = (\<lambda>m v. None)\<rparr>)
     (TType_basic EbtFloat EbpHigh EvqTemporary 4) EvqUniform = Inl AssertionFailure \<and>
   DeclareTempVariable_initializer (\<lambda>n. TType_basic EbtVoid EbpUndefined EvqTemporary 4)
     (Some \<lparr>nextUniqueId = 8, findGlobal = (\<lambda>n. None), findBuiltIn = (\<lambda>m v. None)\<rparr>)
     (Some (CreateBoolNode True)) EvqTemporary =
     Inr (\<lparr>uniqueId = 8, symbolName = [],
           variableType = TType EbtBool EbpUndefined EvqTemporary 1 1 [] noStructure,
           symbolType = AngleInternal\<rparr>,
          TIntermNode defaultLine
            (TIntermDeclaration
               [TIntermNode defaultLine
                  (TIntermBinary EOpInitialize
                     (TIntermNode defaultLine
                        (TIntermSymbol \<lparr>uniqueId = 8, symbolName = [],
                            variableType = TType EbtBool EbpUndefined EvqTemporary 1 1 [] noStructure,
                            symbolType = AngleInternal\<rparr>))
                     (CreateBoolNode True))]),
          \<lparr>nextUniqueId = 9, findGlobal = (\<lambda>n. None), findBuiltIn = (\<lambda>m v. None)\<rparr>) \<and>
   getType (\<lambda>n. TType_basic EbtVoid EbpUndefined EvqTemporary 4) (CreateBoolNode True) =
     TType EbtBool EbpUndefined EvqConst 1 1 [] noStructure \<and>
   TType EbtBool EbpUndefined EvqTemporary 1 1 [] noStructure \<noteq>
     TType EbtBool EbpUndefined EvqConst 1 1 [] noStructure"
  by (simp add: DeclareTempVariable_def DeclareTempVariable_initializer_def
                CreateTempVariable_qualifier_def CreateTempVariable_def new_TVariable_def
                CreateTempDeclarationNode_def CreateTempInitDeclarationNode_def
                CreateTempSymbolNode_def appendDeclarator_def newNode_def getType_def
                CreateBoolNode_def setQualifier_def TType_basic_def)

end
